theory Spec2Isabelle
  imports Main
begin

text \<open>
  \<^verbatim>\<open>src/server.js\<close> holds four successive revisions of one Express relay with the single
  route \<^verbatim>\<open>POST /create-draft-order\<close>. This theory embeds the final revision and, for its
  second authentication header, the third one.
\<close>

section \<open>JavaScript values\<close>

text \<open>
  The relay handles parsed JSON documents and the value
  \<^verbatim>\<open>undefined\<close>. An object is the list of its own properties. Numbers are IEEE
  doubles in the source; no arithmetic is done on them, so they are an abstract type
  \<open>'n\<close> and the three things the program does with a number (the literal \<^verbatim>\<open>1\<close>,
  the truthiness test and the conversion to a string) are fields of the runtime below.
\<close>

datatype 'n js =
    JUndefined
  | JNull
  | JBool bool
  | JNum 'n
  | JStr string
  | JArr "'n js list"
  | JObj "(string \<times> 'n js) list"

text \<open>Exceptions: the \<^verbatim>\<open>Error\<close> objects the source throws, and the engine's own.\<close>

datatype exn = Error string | TypeError string | SyntaxError string

text \<open>\<^verbatim>\<open>String(e)\<close> for an error object: its name, a colon and its message.\<close>

fun exn_String :: "exn \<Rightarrow> string" where
  "exn_String (Error m) = (if m = [] then ''Error'' else ''Error: '' @ m)"
| "exn_String (TypeError m) = (if m = [] then ''TypeError'' else ''TypeError: '' @ m)"
| "exn_String (SyntaxError m) = (if m = [] then ''SyntaxError'' else ''SyntaxError: '' @ m)"

definition nullish :: "'n js \<Rightarrow> bool" where
  "nullish v = (v = JUndefined \<or> v = JNull)"

text \<open>\<^verbatim>\<open>a ?? b\<close>\<close>

definition coalesce :: "'n js \<Rightarrow> 'n js \<Rightarrow> 'n js" where
  "coalesce a b = (if nullish a then b else a)"

text \<open>
  \<^verbatim>\<open>o.p\<close> for the property names the relay reads (\<^verbatim>\<open>email\<close>, \<^verbatim>\<open>address1\<close>,
  \<^verbatim>\<open>title\<close>, ...), none of which is defined on a built-in prototype: an object
  gives its own property or \<^verbatim>\<open>undefined\<close>, a primitive or an array gives
  \<^verbatim>\<open>undefined\<close>, and \<^verbatim>\<open>null\<close> and \<^verbatim>\<open>undefined\<close> raise a TypeError.
\<close>

definition own :: "(string \<times> 'n js) list \<Rightarrow> string \<Rightarrow> 'n js" where
  "own kvs p = (case map_of kvs p of None \<Rightarrow> JUndefined | Some v \<Rightarrow> v)"

fun member :: "'n js \<Rightarrow> string \<Rightarrow> exn + 'n js" where
  "member JUndefined p =
     Inl (TypeError (''Cannot read properties of undefined (reading '' @ [CHR 0x27] @ p @ [CHR 0x27] @ '')''))"
| "member JNull p =
     Inl (TypeError (''Cannot read properties of null (reading '' @ [CHR 0x27] @ p @ [CHR 0x27] @ '')''))"
| "member (JObj kvs) p = Inr (own kvs p)"
| "member v p = Inr JUndefined"

text \<open>\<^verbatim>\<open>o?.p\<close>\<close>

fun opt_member :: "'n js \<Rightarrow> string \<Rightarrow> 'n js" where
  "opt_member (JObj kvs) p = own kvs p"
| "opt_member v p = JUndefined"

fun isArray :: "'n js \<Rightarrow> bool" where
  "isArray (JArr xs) = True"
| "isArray v = False"

fun truthy :: "('n \<Rightarrow> bool) \<Rightarrow> 'n js \<Rightarrow> bool" where
  "truthy nf JUndefined = False"
| "truthy nf JNull = False"
| "truthy nf (JBool b) = b"
| "truthy nf (JNum n) = (\<not> nf n)"
| "truthy nf (JStr s) = (s \<noteq> [])"
| "truthy nf (JArr xs) = True"
| "truthy nf (JObj kvs) = True"

fun sequence :: "('e + 'a) list \<Rightarrow> 'e + 'a list" where
  "sequence [] = Inr []"
| "sequence (Inl e # rs) = Inl e"
| "sequence (Inr x # rs) = (case sequence rs of Inl e \<Rightarrow> Inl e | Inr xs \<Rightarrow> Inr (x # xs))"

fun join :: "string \<Rightarrow> string list \<Rightarrow> string" where
  "join sep [] = []"
| "join sep [s] = s"
| "join sep (s # t # ss) = s @ sep @ join sep (t # ss)"

text \<open>
  \<^verbatim>\<open>String(v)\<close>. An array is joined with commas, \<^verbatim>\<open>null\<close> and \<^verbatim>\<open>undefined\<close>
  elements giving the empty string. A parsed object has no callable property, so one with
  an own \<^verbatim>\<open>toString\<close> property cannot be converted (TypeError), and any other is
  \<^verbatim>\<open>[object Object]\<close>.
\<close>

fun js_String :: "('n \<Rightarrow> string) \<Rightarrow> 'n js \<Rightarrow> exn + string" where
  "js_String ns JUndefined = Inr ''undefined''"
| "js_String ns JNull = Inr ''null''"
| "js_String ns (JBool b) = Inr (if b then ''true'' else ''false'')"
| "js_String ns (JNum n) = Inr (ns n)"
| "js_String ns (JStr s) = Inr s"
| "js_String ns (JArr xs) =
     (case sequence (map (\<lambda>x. if nullish x then Inr [] else js_String ns x) xs) of
        Inl e \<Rightarrow> Inl e
      | Inr ss \<Rightarrow> Inr (join '','' ss))"
| "js_String ns (JObj kvs) =
     (if map_of kvs ''toString'' \<noteq> None
      then Inl (TypeError ''Cannot convert object to primitive value'')
      else Inr ''[object Object]'')"


text \<open>\<^verbatim>\<open>s.includes(sub)\<close> and \<^verbatim>\<open>String(n)\<close> for an HTTP status.\<close>

fun starts_with :: "'a list \<Rightarrow> 'a list \<Rightarrow> bool" where
  "starts_with s [] = True"
| "starts_with [] (p # ps) = False"
| "starts_with (c # cs) (p # ps) = (c = p \<and> starts_with cs ps)"

fun str_includes :: "'a list \<Rightarrow> 'a list \<Rightarrow> bool" where
  "str_includes [] sub = (sub = [])"
| "str_includes (c # cs) sub = (starts_with (c # cs) sub \<or> str_includes cs sub)"

fun show_nat :: "nat \<Rightarrow> string" where
  "show_nat n =
     (if n < 10 then [''0123456789'' ! n]
      else show_nat (n div 10) @ [''0123456789'' ! (n mod 10)])"

declare show_nat.simps [simp del]

section \<open>Configuration, requests and the outside world\<close>

text \<open>
  The module-level constants read from \<^verbatim>\<open>process.env\<close>; \<open>None\<close> is an unset
  variable (\<^verbatim>\<open>undefined\<close>).
\<close>

record config =
  INBOUND_API_KEY :: "string option"
  SHOPIFY_SHOP_DOMAIN :: "string option"
  SHOPIFY_CLIENT_ID :: "string option"
  SHOPIFY_CLIENT_SECRET :: "string option"
  ENV_SHOPIFY_API_VERSION :: "string option"

text \<open>Truthiness of a string that may be \<^verbatim>\<open>undefined\<close>.\<close>

fun env_truthy :: "string option \<Rightarrow> bool" where
  "env_truthy None = False"
| "env_truthy (Some s) = (s \<noteq> [])"

text \<open>\<^verbatim>\<open>`${x}`\<close> for a string that may be \<^verbatim>\<open>undefined\<close>.\<close>

fun interpolate :: "string option \<Rightarrow> string" where
  "interpolate None = ''undefined''"
| "interpolate (Some s) = s"

text \<open>\<^verbatim>\<open>process.env.SHOPIFY_API_VERSION || "2025-10"\<close>\<close>

definition SHOPIFY_API_VERSION :: "config \<Rightarrow> string" where
  "SHOPIFY_API_VERSION cfg =
     (if env_truthy (ENV_SHOPIFY_API_VERSION cfg) then interpolate (ENV_SHOPIFY_API_VERSION cfg)
      else ''2025-10'')"

text \<open>
  The inbound request: the two headers the relay reads (\<open>None\<close> when the header is
  not sent) and \<^verbatim>\<open>req.body\<close> as \<^verbatim>\<open>express.json()\<close> left it.
\<close>

record 'n request =
  x_api_key :: "string option"
  authorization :: "string option"
  req_body :: "'n js"

text \<open>The reply of the relay: the status and the value handed to \<^verbatim>\<open>res.json\<close>.\<close>

record 'n response =
  res_status :: nat
  res_body :: "'n js"

definition res_json :: "nat \<Rightarrow> 'n js \<Rightarrow> 'n response" where
  "res_json st v = \<lparr>res_status = st, res_body = v\<rparr>"

text \<open>
  The two outbound calls, by the arguments given to \<^verbatim>\<open>fetch\<close>: the form-encoded
  token request, and the GraphQL request with its access-token header and the object
  \<^verbatim>\<open>{ query, variables }\<close> that is serialised into its body.
\<close>

datatype 'n outcall =
    TokenRequest string "(string \<times> string) list"
  | GraphQLRequest string "'n js" string "'n js"

text \<open>What \<^verbatim>\<open>fetch\<close> resolves to: status, declared content type and body text.\<close>

record http_response =
  status :: nat
  content_type :: "string option"
  text_of :: string

definition ok :: "http_response \<Rightarrow> bool" where
  "ok resp = (200 \<le> status resp \<and> status resp \<le> 299)"

text \<open>
  What the program takes from its runtime: the number primitives, \<^verbatim>\<open>JSON.parse\<close>
  (\<open>Inl\<close> is the SyntaxError it throws) and \<^verbatim>\<open>fetch\<close> (\<open>Inl\<close> is a rejected
  promise, for a network failure). Console logging has no effect on the result and is
  left out.
\<close>

record 'n runtime =
  number_one :: 'n
  number_falsy :: "'n \<Rightarrow> bool"
  number_toString :: "'n \<Rightarrow> string"
  JSON_parse :: "string \<Rightarrow> exn + 'n js"
  fetch :: "'n outcall \<Rightarrow> exn + http_response"

text \<open>Sequencing of steps that may throw.\<close>

fun and_then :: "'e + 'a \<Rightarrow> ('a \<Rightarrow> 'e + 'b) \<Rightarrow> 'e + 'b" where
  "and_then (Inl e) f = Inl e"
| "and_then (Inr x) f = f x"


section \<open>The final revision\<close>

subsection \<open>\<^verbatim>\<open>getShopifyAccessToken\<close>\<close>

definition token_url :: "config \<Rightarrow> string" where
  "token_url cfg = ''https://'' @ interpolate (SHOPIFY_SHOP_DOMAIN cfg) @ ''/admin/oauth/access_token''"

definition token_form :: "config \<Rightarrow> (string \<times> string) list" where
  "token_form cfg =
     [(''grant_type'', ''client_credentials''),
      (''client_id'', interpolate (SHOPIFY_CLIENT_ID cfg)),
      (''client_secret'', interpolate (SHOPIFY_CLIENT_SECRET cfg))]"

text \<open>\<^verbatim>\<open>resp.headers.get("content-type") || ""\<close>\<close>

definition contentType :: "http_response \<Rightarrow> string" where
  "contentType resp = (case content_type resp of None \<Rightarrow> [] | Some c \<Rightarrow> c)"

text \<open>
  The body of \<^verbatim>\<open>getShopifyAccessToken\<close> from the line that reads the content type
  on: the text is parsed only under a JSON content type, then the status and the
  \<^verbatim>\<open>access_token\<close> field are checked.
\<close>

definition read_token :: "'n runtime \<Rightarrow> http_response \<Rightarrow> exn + 'n js" where
  "read_token rt resp =
     (let rawText = text_of resp in
      and_then (if str_includes (contentType resp) ''application/json''
                then JSON_parse rt rawText else Inr JNull)
        (\<lambda>data.
           if \<not> ok resp then
             Inl (Error (''Token request failed: status='' @ show_nat (status resp)
                         @ '' contentType='' @ contentType resp
                         @ '' preview='' @ take 200 rawText))
           else if \<not> truthy (number_falsy rt) (opt_member data ''access_token'') then
             Inl (Error (''Token missing access_token. contentType='' @ contentType resp
                         @ '' preview='' @ take 200 rawText))
           else member data ''access_token''))"

text \<open>The result and the outbound calls made, in order.\<close>

definition getShopifyAccessToken :: "'n runtime \<Rightarrow> config \<Rightarrow> (exn + 'n js) \<times> 'n outcall list" where
  "getShopifyAccessToken rt cfg =
     (if \<not> env_truthy (SHOPIFY_SHOP_DOMAIN cfg) \<or> \<not> env_truthy (SHOPIFY_CLIENT_ID cfg)
         \<or> \<not> env_truthy (SHOPIFY_CLIENT_SECRET cfg)
      then (Inl (Error ''Missing Shopify environment variables. Check SHOPIFY_SHOP_DOMAIN, SHOPIFY_CLIENT_ID, SHOPIFY_CLIENT_SECRET.''), [])
      else let call = TokenRequest (token_url cfg) (token_form cfg) in
           (and_then (fetch rt call) (read_token rt), [call]))"

subsection \<open>The handler of \<^verbatim>\<open>POST /create-draft-order\<close>\<close>

text \<open>
  \<^verbatim>\<open>const { customer, shipping_address, items, tags = [], note = "" } = req.body\<close>:
  a TypeError on \<^verbatim>\<open>undefined\<close> and \<^verbatim>\<open>null\<close>; a default replaces
  \<^verbatim>\<open>undefined\<close> only.
\<close>

definition with_default :: "'n js \<Rightarrow> 'n js \<Rightarrow> 'n js" where
  "with_default v d = (if v = JUndefined then d else v)"

definition destructure :: "'n js \<Rightarrow> exn + ('n js \<times> 'n js \<times> 'n js \<times> 'n js \<times> 'n js)" where
  "destructure b =
     (if b = JUndefined then
        Inl (TypeError (''Cannot destructure property '' @ [CHR 0x27] @ ''customer'' @ [CHR 0x27]
               @ '' of '' @ [CHR 0x27] @ ''req.body'' @ [CHR 0x27] @ '' as it is undefined.''))
      else if b = JNull then
        Inl (TypeError (''Cannot destructure property '' @ [CHR 0x27] @ ''customer'' @ [CHR 0x27]
               @ '' of '' @ [CHR 0x27] @ ''req.body'' @ [CHR 0x27] @ '' as it is null.''))
      else Inr (opt_member b ''customer'', opt_member b ''shipping_address'', opt_member b ''items'',
                with_default (opt_member b ''tags'') (JArr []),
                with_default (opt_member b ''note'') (JStr [])))"

definition gql :: string where
  "gql = [CHR 0x0A]
     @ ''      mutation draftOrderCreate($input: DraftOrderInput!) {'' @ [CHR 0x0A]
     @ ''        draftOrderCreate(input: $input) {'' @ [CHR 0x0A]
     @ ''          draftOrder { id invoiceUrl }'' @ [CHR 0x0A]
     @ ''          userErrors { field message }'' @ [CHR 0x0A]
     @ ''        }'' @ [CHR 0x0A]
     @ ''      }'' @ [CHR 0x0A]
     @ ''    ''"

text \<open>The callback of \<^verbatim>\<open>items.map\<close>.\<close>

definition lineItem :: "'n runtime \<Rightarrow> 'n js \<Rightarrow> exn + 'n js" where
  "lineItem rt it =
     and_then (member it ''title'') (\<lambda>title.
     and_then (member it ''quantity'') (\<lambda>quantity.
     and_then (member it ''price'') (\<lambda>price.
     and_then (js_String (number_toString rt) price) (\<lambda>originalUnitPrice.
       Inr (JObj [(''title'', title),
                  (''quantity'', coalesce quantity (JNum (number_one rt))),
                  (''originalUnitPrice'', JStr originalUnitPrice)])))))"

text \<open>\<^verbatim>\<open>items.map(...)\<close> on an array; the handler calls it on arrays only.\<close>

fun lineItems :: "'n runtime \<Rightarrow> 'n js \<Rightarrow> exn + 'n js" where
  "lineItems rt (JArr its) =
     (case sequence (map (lineItem rt) its) of Inl e \<Rightarrow> Inl e | Inr ls \<Rightarrow> Inr (JArr ls))"
| "lineItems rt v = Inl (TypeError ''items.map is not a function'')"

definition shippingAddress :: "'n js \<Rightarrow> exn + 'n js" where
  "shippingAddress shipping_address =
     and_then (member shipping_address ''firstName'') (\<lambda>firstName.
     and_then (member shipping_address ''lastName'') (\<lambda>lastName.
     and_then (member shipping_address ''address1'') (\<lambda>address1.
     and_then (member shipping_address ''address2'') (\<lambda>address2.
     and_then (member shipping_address ''city'') (\<lambda>city.
     and_then (member shipping_address ''province'') (\<lambda>province.
     and_then (member shipping_address ''country'') (\<lambda>country.
     and_then (member shipping_address ''zip'') (\<lambda>zip.
     and_then (member shipping_address ''phone'') (\<lambda>phone.
       Inr (JObj [(''firstName'', coalesce firstName (JStr [])),
                  (''lastName'', coalesce lastName (JStr [])),
                  (''address1'', address1),
                  (''address2'', coalesce address2 (JStr [])),
                  (''city'', coalesce city (JStr [])),
                  (''province'', coalesce province (JStr [])),
                  (''country'', coalesce country (JStr ''US'')),
                  (''zip'', coalesce zip (JStr [])),
                  (''phone'', coalesce phone (JStr []))]))))))))))"

text \<open>The \<^verbatim>\<open>variables\<close> object, after \<^verbatim>\<open>lineItems\<close> as in the source.\<close>

definition build_variables ::
  "'n runtime \<Rightarrow> 'n js \<Rightarrow> 'n js \<Rightarrow> 'n js \<Rightarrow> 'n js \<Rightarrow> 'n js \<Rightarrow> exn + 'n js" where
  "build_variables rt customer shipping_address items tags note =
     and_then (lineItems rt items) (\<lambda>ls.
     and_then (member customer ''email'') (\<lambda>email.
     and_then (shippingAddress shipping_address) (\<lambda>sa.
       Inr (JObj [(''input'',
              JObj [(''email'', email),
                    (''shippingAddress'', sa),
                    (''note'', note),
                    (''tags'', tags),
                    (''lineItems'', ls)])]))))"

definition graphql_url :: "config \<Rightarrow> string" where
  "graphql_url cfg = ''https://'' @ interpolate (SHOPIFY_SHOP_DOMAIN cfg) @ ''/admin/api/''
     @ SHOPIFY_API_VERSION cfg @ ''/graphql.json''"

definition server_error :: "exn \<Rightarrow> 'n response" where
  "server_error e =
     res_json 500 (JObj [(''error'', JStr ''Server error''), (''details'', JStr (exn_String e))])"

text \<open>\<^verbatim>\<open>data?.data?.draftOrderCreate?.userErrors\<close>\<close>

definition userErrors_of :: "'n js \<Rightarrow> 'n js" where
  "userErrors_of data = opt_member (opt_member (opt_member data ''data'') ''draftOrderCreate'') ''userErrors''"

text \<open>The handler from \<^verbatim>\<open>await resp.json()\<close> on.\<close>

definition draft_order_reply :: "'n runtime \<Rightarrow> http_response \<Rightarrow> exn + 'n response" where
  "draft_order_reply rt resp =
     and_then (JSON_parse rt (text_of resp)) (\<lambda>data.
       let userErrors = userErrors_of data in
       if \<not> ok resp \<or> (isArray userErrors \<and> userErrors \<noteq> JArr []) then
         Inr (res_json 400 (JObj [(''error'', JStr ''Shopify error creating draft order''),
                                  (''details'', coalesce userErrors data)]))
       else
         and_then (member data ''data'') (\<lambda>d.
         and_then (member d ''draftOrderCreate'') (\<lambda>c.
         and_then (member c ''draftOrder'') (\<lambda>draft.
         and_then (member draft ''id'') (\<lambda>draft_id.
         and_then (member draft ''invoiceUrl'') (\<lambda>invoiceUrl.
           Inr (res_json 200 (JObj [(''draft_order_id'', draft_id),
                                    (''invoice_url'', invoiceUrl)]))))))))"

text \<open>\<^verbatim>\<open>try { ... } catch (e) { 500 }\<close>\<close>

fun catch :: "exn + 'n response \<Rightarrow> 'n response" where
  "catch (Inl e) = server_error e"
| "catch (Inr r) = r"

text \<open>The reply and the outbound calls made, in order.\<close>

definition create_draft_order ::
  "'n runtime \<Rightarrow> config \<Rightarrow> 'n request \<Rightarrow> 'n response \<times> 'n outcall list" where
  "create_draft_order rt cfg req =
     (if \<not> env_truthy (INBOUND_API_KEY cfg) \<or> x_api_key req \<noteq> INBOUND_API_KEY cfg then
        (res_json 401 (JObj [(''error'', JStr ''Unauthorized'')]), [])
      else
        (case destructure (req_body req) of
           Inl e \<Rightarrow> (server_error e, [])
         | Inr (customer, shipping_address, items, tags, note) \<Rightarrow>
            (if \<not> truthy (number_falsy rt) (opt_member customer ''email'') then
               (res_json 400 (JObj [(''error'', JStr ''Missing required field: customer.email'')]), [])
             else if \<not> truthy (number_falsy rt) (opt_member shipping_address ''address1'') then
               (res_json 400 (JObj [(''error'', JStr ''Missing required field: shipping_address.address1'')]), [])
             else if \<not> isArray items \<or> items = JArr [] then
               (res_json 400 (JObj [(''error'', JStr ''Missing required field: items (must be a non-empty array)'')]), [])
             else
               (case getShopifyAccessToken rt cfg of
                  (Inl e, calls) \<Rightarrow> (server_error e, calls)
                | (Inr accessToken, calls) \<Rightarrow>
                   (case build_variables rt customer shipping_address items tags note of
                      Inl e \<Rightarrow> (server_error e, calls)
                    | Inr variables \<Rightarrow>
                       (let call = GraphQLRequest (graphql_url cfg) accessToken gql variables in
                        (catch (and_then (fetch rt call) (draft_order_reply rt)), calls @ [call])))))))"


section \<open>The third revision: two authentication headers\<close>

text \<open>
  The third revision of the file reads the key from \<^verbatim>\<open>X-Api-Key\<close> or from a bearer
  \<^verbatim>\<open>Authorization\<close> header. Its definitions carry the suffix \<open>rev3\<close> where the
  final revision has a function of the same name.
\<close>

text \<open>
  The characters that \<^verbatim>\<open>\s\<close> and \<^verbatim>\<open>trim()\<close> take for white space, among the
  256 a header value is made of.
\<close>

definition is_space :: "char \<Rightarrow> bool" where
  "is_space c = (c = CHR 0x09 \<or> c = CHR 0x0A \<or> c = CHR 0x0B \<or> c = CHR 0x0C \<or> c = CHR 0x0D
     \<or> c = CHR 0x20 \<or> c = CHR 0xA0)"

definition trim :: "string \<Rightarrow> string" where
  "trim s = rev (dropWhile is_space (rev (dropWhile is_space s)))"

text \<open>
  \<^verbatim>\<open>authHeader.replace(/^Bearer\s+/i, "")\<close>: the word in any letter case at the start,
  followed by at least one white-space character, is removed with all the white space
  after it.
\<close>

fun strip_bearer :: "string \<Rightarrow> string" where
  "strip_bearer (c1 # c2 # c3 # c4 # c5 # c6 # c7 # cs) =
     (if (c1 = CHR ''B'' \<or> c1 = CHR ''b'') \<and> (c2 = CHR ''E'' \<or> c2 = CHR ''e'')
         \<and> (c3 = CHR ''A'' \<or> c3 = CHR ''a'') \<and> (c4 = CHR ''R'' \<or> c4 = CHR ''r'')
         \<and> (c5 = CHR ''E'' \<or> c5 = CHR ''e'') \<and> (c6 = CHR ''R'' \<or> c6 = CHR ''r'')
         \<and> is_space c7
      then dropWhile is_space cs
      else c1 # c2 # c3 # c4 # c5 # c6 # c7 # cs)"
| "strip_bearer s = s"

definition getProvidedKey :: "'n request \<Rightarrow> string" where
  "getProvidedKey req =
     (let apiKeyHeader = x_api_key req;
          authHeader = (if env_truthy (authorization req) then interpolate (authorization req) else []);
          bearerToken = trim (strip_bearer authHeader)
      in if env_truthy apiKeyHeader then interpolate apiKeyHeader
         else if bearerToken \<noteq> [] then bearerToken
         else [])"

text \<open>
  \<^verbatim>\<open>requireApiKey\<close> returns a boolean; when it is false it has sent the 401 reply
  \<open>unauthorized\<close>.
\<close>

definition requireApiKey :: "config \<Rightarrow> 'n request \<Rightarrow> bool" where
  "requireApiKey cfg req =
     (let providedKey = getProvidedKey req in
      \<not> (\<not> env_truthy (INBOUND_API_KEY cfg) \<or> providedKey = []
         \<or> Some providedKey \<noteq> INBOUND_API_KEY cfg))"

definition unauthorized :: "'n response" where
  "unauthorized = res_json 401 (JObj [(''error'', JStr ''Unauthorized'')])"

definition read_token_rev3 :: "'n runtime \<Rightarrow> http_response \<Rightarrow> exn + 'n js" where
  "read_token_rev3 rt resp =
     (let rawText = text_of resp in
      and_then (if str_includes (contentType resp) ''application/json''
                then JSON_parse rt rawText else Inr JNull)
        (\<lambda>data.
           if \<not> ok resp then
             Inl (Error (''Token request failed: '' @ show_nat (status resp) @ '' '' @ take 200 rawText))
           else if \<not> truthy (number_falsy rt) (opt_member data ''access_token'') then
             Inl (Error (''Token missing access_token: '' @ take 200 rawText))
           else member data ''access_token''))"

definition getShopifyAccessToken_rev3 ::
  "'n runtime \<Rightarrow> config \<Rightarrow> (exn + 'n js) \<times> 'n outcall list" where
  "getShopifyAccessToken_rev3 rt cfg =
     (if \<not> env_truthy (SHOPIFY_SHOP_DOMAIN cfg) \<or> \<not> env_truthy (SHOPIFY_CLIENT_ID cfg)
         \<or> \<not> env_truthy (SHOPIFY_CLIENT_SECRET cfg)
      then (Inl (Error ''Missing Shopify env vars: SHOPIFY_SHOP_DOMAIN/CLIENT_ID/CLIENT_SECRET''), [])
      else let call = TokenRequest (token_url cfg) (token_form cfg) in
           (and_then (fetch rt call) (read_token_rev3 rt), [call]))"

text \<open>\<^verbatim>\<open>errs.length\<close> as a condition, for an \<^verbatim>\<open>errs\<close> that is truthy.\<close>

fun length_truthy :: "('n \<Rightarrow> bool) \<Rightarrow> 'n js \<Rightarrow> bool" where
  "length_truthy nf (JArr xs) = (xs \<noteq> [])"
| "length_truthy nf (JStr s) = (s \<noteq> [])"
| "length_truthy nf (JObj kvs) = truthy nf (own kvs ''length'')"
| "length_truthy nf v = False"

definition draft_order_reply_rev3 :: "'n runtime \<Rightarrow> http_response \<Rightarrow> exn + 'n response" where
  "draft_order_reply_rev3 rt resp =
     and_then (JSON_parse rt (text_of resp)) (\<lambda>data.
       let errs = userErrors_of data in
       if \<not> ok resp \<or> (truthy (number_falsy rt) errs \<and> length_truthy (number_falsy rt) errs) then
         Inr (res_json 400 (JObj [(''error'', JStr ''Shopify error''),
                                  (''details'', coalesce errs data)]))
       else
         and_then (member data ''data'') (\<lambda>d.
         and_then (member d ''draftOrderCreate'') (\<lambda>c.
         and_then (member c ''draftOrder'') (\<lambda>draft.
         and_then (member draft ''id'') (\<lambda>draft_id.
         and_then (member draft ''invoiceUrl'') (\<lambda>invoiceUrl.
           Inr (res_json 200 (JObj [(''draft_order_id'', draft_id),
                                    (''invoice_url'', invoiceUrl)]))))))))"

definition create_draft_order_rev3 ::
  "'n runtime \<Rightarrow> config \<Rightarrow> 'n request \<Rightarrow> 'n response \<times> 'n outcall list" where
  "create_draft_order_rev3 rt cfg req =
     (if \<not> requireApiKey cfg req then (unauthorized, [])
      else
        (case destructure (req_body req) of
           Inl e \<Rightarrow> (server_error e, [])
         | Inr (customer, shipping_address, items, tags, note) \<Rightarrow>
            (if \<not> truthy (number_falsy rt) (opt_member customer ''email'') then
               (res_json 400 (JObj [(''error'', JStr ''Missing customer.email'')]), [])
             else if \<not> truthy (number_falsy rt) (opt_member shipping_address ''address1'') then
               (res_json 400 (JObj [(''error'', JStr ''Missing shipping_address.address1'')]), [])
             else if \<not> isArray items \<or> items = JArr [] then
               (res_json 400 (JObj [(''error'', JStr ''Missing items[]'')]), [])
             else
               (case getShopifyAccessToken_rev3 rt cfg of
                  (Inl e, calls) \<Rightarrow> (server_error e, calls)
                | (Inr accessToken, calls) \<Rightarrow>
                   (case build_variables rt customer shipping_address items tags note of
                      Inl e \<Rightarrow> (server_error e, calls)
                    | Inr variables \<Rightarrow>
                       (let call = GraphQLRequest (graphql_url cfg) accessToken gql variables in
                        (catch (and_then (fetch rt call) (draft_order_reply_rev3 rt)),
                         calls @ [call])))))))"


section \<open>Reading a request and a reply by path\<close>

text \<open>
  \<open>path v [p, q]\<close> is \<^verbatim>\<open>v?.p?.q\<close>. \<open>request_variables\<close> is the \<^verbatim>\<open>variables\<close>
  object the handler builds from a request body: the destructuring followed by the
  mapping.
\<close>

definition path :: "'n js \<Rightarrow> string list \<Rightarrow> 'n js" where
  "path v ps = foldl opt_member v ps"

definition request_variables :: "'n runtime \<Rightarrow> 'n js \<Rightarrow> exn + 'n js" where
  "request_variables rt b =
     and_then (destructure b) (\<lambda>(customer, shipping_address, items, tags, note).
       build_variables rt customer shipping_address items tags note)"

section \<open>A sample configuration and runtime\<close>

text \<open>
  A runtime whose numbers are the integers, whose \<^verbatim>\<open>JSON.parse\<close> knows four documents
  and whose \<^verbatim>\<open>fetch\<close> answers the token request and the GraphQL request with two given
  replies.
\<close>

definition show_int :: "int \<Rightarrow> string" where
  "show_int i = (if i < 0 then ''-'' @ show_nat (nat (- i)) else show_nat (nat i))"

definition sample_token_text :: string where
  \<open>sample_token_text = ''{"access_token":"shpat_1"}''\<close>

definition sample_draft_text :: string where
  \<open>sample_draft_text = ''{"data":{"draftOrderCreate":{"draftOrder":{"id":"gid://shopify/DraftOrder/1","invoiceUrl":"https://shop.example/invoice/1"},"userErrors":[]}}}''\<close>

definition sample_rejected_text :: string where
  \<open>sample_rejected_text = ''{"data":{"draftOrderCreate":{"draftOrder":null,"userErrors":[{"field":["email"],"message":"Email is invalid"}]}}}''\<close>

definition sample_errors_text :: string where
  \<open>sample_errors_text = ''{"errors":"Not Found"}''\<close>

definition sample_user_errors :: "int js" where
  "sample_user_errors =
     JArr [JObj [(''field'', JArr [JStr ''email'']), (''message'', JStr ''Email is invalid'')]]"

definition sample_parse :: "string \<Rightarrow> exn + int js" where
  "sample_parse s =
     (if s = sample_token_text then Inr (JObj [(''access_token'', JStr ''shpat_1'')])
      else if s = sample_draft_text then
        Inr (JObj [(''data'', JObj [(''draftOrderCreate'',
               JObj [(''draftOrder'', JObj [(''id'', JStr ''gid://shopify/DraftOrder/1''),
                                            (''invoiceUrl'', JStr ''https://shop.example/invoice/1'')]),
                     (''userErrors'', JArr [])])])])
      else if s = sample_rejected_text then
        Inr (JObj [(''data'', JObj [(''draftOrderCreate'',
               JObj [(''draftOrder'', JNull), (''userErrors'', sample_user_errors)])])])
      else if s = sample_errors_text then Inr (JObj [(''errors'', JStr ''Not Found'')])
      else Inl (SyntaxError ''Unexpected token''))"

definition sample_runtime :: "http_response \<Rightarrow> http_response \<Rightarrow> int runtime" where
  "sample_runtime token_reply graphql_reply =
     \<lparr>number_one = 1,
      number_falsy = (\<lambda>n. n = 0),
      number_toString = show_int,
      JSON_parse = sample_parse,
      fetch = (\<lambda>call. case call of
                 TokenRequest u f \<Rightarrow> Inr token_reply
               | GraphQLRequest u t q v \<Rightarrow> Inr graphql_reply)\<rparr>"

definition json_reply :: "nat \<Rightarrow> string \<Rightarrow> http_response" where
  "json_reply st s = \<lparr>status = st, content_type = Some ''application/json; charset=utf-8'', text_of = s\<rparr>"

definition html_reply :: "nat \<Rightarrow> string \<Rightarrow> http_response" where
  "html_reply st s = \<lparr>status = st, content_type = Some ''text/html'', text_of = s\<rparr>"

definition sample_config :: config where
  "sample_config =
     \<lparr>INBOUND_API_KEY = Some ''s3cret'',
      SHOPIFY_SHOP_DOMAIN = Some ''shop.example'',
      SHOPIFY_CLIENT_ID = Some ''client-id'',
      SHOPIFY_CLIENT_SECRET = Some ''client-secret'',
      ENV_SHOPIFY_API_VERSION = None\<rparr>"

definition sample_body :: "int js" where
  "sample_body =
     JObj [(''customer'', JObj [(''email'', JStr ''pat@example.com'')]),
           (''shipping_address'', JObj [(''address1'', JStr ''1 Main St'')]),
           (''items'', JArr [JObj [(''title'', JStr ''Single Vision Lenses''), (''price'', JNum 150)]])]"

definition sample_request :: "string option \<Rightarrow> string option \<Rightarrow> int js \<Rightarrow> int request" where
  "sample_request key auth b = \<lparr>x_api_key = key, authorization = auth, req_body = b\<rparr>"

definition sample_token_call :: "int outcall" where
  "sample_token_call =
     TokenRequest ''https://shop.example/admin/oauth/access_token''
       [(''grant_type'', ''client_credentials''), (''client_id'', ''client-id''),
        (''client_secret'', ''client-secret'')]"

definition sample_variables :: "int js" where
  "sample_variables =
     JObj [(''input'',
       JObj [(''email'', JStr ''pat@example.com''),
             (''shippingAddress'',
                JObj [(''firstName'', JStr []), (''lastName'', JStr []),
                      (''address1'', JStr ''1 Main St''), (''address2'', JStr []),
                      (''city'', JStr []), (''province'', JStr []), (''country'', JStr ''US''),
                      (''zip'', JStr []), (''phone'', JStr [])]),
             (''note'', JStr []),
             (''tags'', JArr []),
             (''lineItems'',
                JArr [JObj [(''title'', JStr ''Single Vision Lenses''), (''quantity'', JNum 1),
                            (''originalUnitPrice'', JStr ''150'')]])])]"

definition sample_graphql_call :: "int outcall" where
  "sample_graphql_call =
     GraphQLRequest ''https://shop.example/admin/api/2025-10/graphql.json'' (JStr ''shpat_1'') gql
       sample_variables"


section \<open>Basic facts\<close>

lemma and_then_Inr: "and_then m f = Inr y \<longleftrightarrow> (\<exists>x. m = Inr x \<and> f x = Inr y)"
  by (cases m) auto

lemma member_opt_member: "opt_member v p \<noteq> JUndefined \<Longrightarrow> member v p = Inr (opt_member v p)"
  by (cases v) auto

lemma server_error_status: "res_status (server_error e) = 500"
  by (simp add: server_error_def res_json_def)

lemma token_calls:
  "snd (getShopifyAccessToken rt cfg) = [] \<or>
   snd (getShopifyAccessToken rt cfg) = [TokenRequest (token_url cfg) (token_form cfg)]"
  by (simp add: getShopifyAccessToken_def Let_def)

lemma path_simps:
  "path v [] = v"
  "path v (p # ps) = path (opt_member v p) ps"
  by (simp_all add: path_def)

lemma destructure_parts:
  assumes "b \<noteq> JUndefined" "b \<noteq> JNull"
  shows "destructure b =
     Inr (path b [''customer''], path b [''shipping_address''], path b [''items''],
          with_default (path b [''tags'']) (JArr []), with_default (path b [''note'']) (JStr []))"
  using assms by (simp add: destructure_def path_simps)

lemma truthy_path_body:
  assumes "truthy nf (path b [p, q])"
  shows "b \<noteq> JUndefined \<and> b \<noteq> JNull"
  using assms by (cases b) (auto simp: path_simps)

lemmas sample_defs =
  sample_runtime_def sample_config_def sample_request_def sample_body_def sample_parse_def
  json_reply_def html_reply_def sample_token_call_def sample_graphql_call_def sample_variables_def
  sample_token_text_def sample_draft_text_def sample_rejected_text_def sample_errors_text_def
  sample_user_errors_def

lemmas run_defs =
  create_draft_order_def getShopifyAccessToken_def read_token_def destructure_def with_default_def
  build_variables_def lineItem_def shippingAddress_def draft_order_reply_def userErrors_of_def
  request_variables_def path_def coalesce_def nullish_def own_def ok_def contentType_def
  token_url_def token_form_def graphql_url_def SHOPIFY_API_VERSION_def server_error_def
  show_int_def show_nat.simps Let_def

lemma draft_order_reply_200:
  assumes "ok resp" "JSON_parse rt (text_of resp) = Inr data"
    and "userErrors_of data = JArr [] \<or> nullish (userErrors_of data)"
    and "path data [''data'', ''draftOrderCreate'', ''draftOrder'', ''id''] = JStr draft_id"
    and "path data [''data'', ''draftOrderCreate'', ''draftOrder'', ''invoiceUrl''] = JStr invoiceUrl"
  shows "draft_order_reply rt resp =
     Inr (res_json 200 (JObj [(''draft_order_id'', JStr draft_id), (''invoice_url'', JStr invoiceUrl)]))"
proof -
  let ?d = "opt_member data ''data''"
  let ?c = "opt_member ?d ''draftOrderCreate''"
  let ?o = "opt_member ?c ''draftOrder''"
  have id: "opt_member ?o ''id'' = JStr draft_id" and url: "opt_member ?o ''invoiceUrl'' = JStr invoiceUrl"
    using assms(4,5) by (simp_all add: path_simps)
  from id have o: "?o \<noteq> JUndefined" by (cases ?o) auto
  then have c: "?c \<noteq> JUndefined" by (cases ?c) auto
  then have d: "?d \<noteq> JUndefined" by (cases ?d) auto
  have m: "member data ''data'' = Inr ?d" "member ?d ''draftOrderCreate'' = Inr ?c"
    "member ?c ''draftOrder'' = Inr ?o" "member ?o ''id'' = Inr (JStr draft_id)"
    "member ?o ''invoiceUrl'' = Inr (JStr invoiceUrl)"
    using member_opt_member [OF d] member_opt_member [OF c] member_opt_member [OF o]
      member_opt_member [of ?o "''id''"] member_opt_member [of ?o "''invoiceUrl''"] id url
    by simp_all
  have e: "\<not> (isArray (userErrors_of data) \<and> userErrors_of data \<noteq> JArr [])"
    using assms(3) by (auto simp: nullish_def)
  show ?thesis
    using assms(1,2) e by (auto simp: draft_order_reply_def Let_def m)
qed

lemma draft_order_reply_400:
  assumes "JSON_parse rt (text_of resp) = Inr data"
    and "\<not> ok resp \<or> userErrors_of data = JArr (e # es)"
  shows "draft_order_reply rt resp =
     Inr (res_json 400 (JObj [(''error'', JStr ''Shopify error creating draft order''),
            (''details'', if nullish (userErrors_of data) then data else userErrors_of data)]))"
  using assms by (auto simp: draft_order_reply_def Let_def coalesce_def)

lemma starts_with_append: "starts_with (p @ s) p"
  by (induction p) auto

lemma starts_with_includes: "starts_with s p \<Longrightarrow> str_includes s p"
  by (cases s; cases p) auto

lemma str_includes_append: "str_includes (a @ b @ c) b"
proof (induction a)
  case Nil
  then show ?case by (simp add: starts_with_includes starts_with_append)
next
  case (Cons x a)
  then show ?case by simp
qed

lemma read_token_not_json:
  assumes "\<not> str_includes (contentType resp) ''application/json''"
  shows "read_token rt resp =
     Inl (Error (if ok resp
        then ''Token missing access_token. contentType='' @ contentType resp
               @ '' preview='' @ take 200 (text_of resp)
        else ''Token request failed: status='' @ show_nat (status resp)
               @ '' contentType='' @ contentType resp
               @ '' preview='' @ take 200 (text_of resp)))"
  using assms by (simp add: read_token_def Let_def)

lemma strip_bearer_prefix: "strip_bearer (''Bearer '' @ k) = dropWhile is_space k"
  by (simp add: is_space_def)

lemma trim_dropWhile: "trim (dropWhile is_space k) = trim k"
  by (simp add: trim_def)

lemma bearer_token: "trim k = k \<Longrightarrow> trim (strip_bearer (''Bearer '' @ k)) = k"
  by (simp only: strip_bearer_prefix trim_dropWhile)

lemma draft_order_reply_rev3_status:
  "draft_order_reply_rev3 rt resp = Inr r \<Longrightarrow> res_status r = 200 \<or> res_status r = 400"
  by (auto simp: draft_order_reply_rev3_def Let_def and_then_Inr res_json_def split: if_splits)

lemma catch_rev3_status:
  "res_status (catch (and_then f (draft_order_reply_rev3 rt))) \<noteq> 401"
proof (cases "and_then f (draft_order_reply_rev3 rt)")
  case (Inl e)
  then show ?thesis by (simp add: server_error_status)
next
  case (Inr r)
  then obtain resp where "draft_order_reply_rev3 rt resp = Inr r"
    by (auto simp: and_then_Inr)
  from draft_order_reply_rev3_status [OF this] Inr show ?thesis by auto
qed

lemma accepted_rev3_status:
  assumes "requireApiKey cfg req"
  shows "res_status (fst (create_draft_order_rev3 rt cfg req)) \<noteq> 401"
  using assms
  by (auto simp: create_draft_order_rev3_def server_error_status res_json_def catch_rev3_status Let_def
      split: sum.splits prod.splits)

lemma member_Inr: "member v p = Inr x \<Longrightarrow> x = opt_member v p"
  by (cases v) auto

lemma sequence_Inr:
  "sequence rs = Inr xs \<Longrightarrow> length xs = length rs \<and> (\<forall>i<length rs. rs ! i = Inr (xs ! i))"
proof (induction rs arbitrary: xs rule: sequence.induct)
  case 1
  then show ?case by simp
next
  case (2 e rs)
  then show ?case by simp
next
  case (3 x rs)
  then obtain ys where ys: "sequence rs = Inr ys" "xs = x # ys"
    by (auto split: sum.splits)
  from "3.IH" [OF ys(1)] ys(2) show ?case
    by (auto simp: nth_Cons split: nat.splits)
qed

lemma lineItems_Inr:
  assumes "lineItems rt (JArr its) = Inr v"
  shows "\<exists>ls. v = JArr ls \<and> length ls = length its \<and> (\<forall>i<length its. lineItem rt (its ! i) = Inr (ls ! i))"
proof -
  from assms obtain ls where ls: "sequence (map (lineItem rt) its) = Inr ls" "v = JArr ls"
    by (auto split: sum.splits)
  from sequence_Inr [OF ls(1)] ls(2) show ?thesis by auto
qed

lemma lineItem_Inr:
  assumes "lineItem rt it = Inr l"
  shows "\<exists>s. js_String (number_toString rt) (opt_member it ''price'') = Inr s
     \<and> l = JObj [(''title'', opt_member it ''title''),
                 (''quantity'', coalesce (opt_member it ''quantity'') (JNum (number_one rt))),
                 (''originalUnitPrice'', JStr s)]"
  using assms by (auto simp: lineItem_def and_then_Inr dest!: member_Inr)

lemma shippingAddress_Inr:
  assumes "shippingAddress s = Inr sa"
  shows "sa = JObj [(''firstName'', coalesce (opt_member s ''firstName'') (JStr [])),
                    (''lastName'', coalesce (opt_member s ''lastName'') (JStr [])),
                    (''address1'', opt_member s ''address1''),
                    (''address2'', coalesce (opt_member s ''address2'') (JStr [])),
                    (''city'', coalesce (opt_member s ''city'') (JStr [])),
                    (''province'', coalesce (opt_member s ''province'') (JStr [])),
                    (''country'', coalesce (opt_member s ''country'') (JStr ''US'')),
                    (''zip'', coalesce (opt_member s ''zip'') (JStr [])),
                    (''phone'', coalesce (opt_member s ''phone'') (JStr []))]"
  using assms by (auto simp: shippingAddress_def and_then_Inr dest!: member_Inr)

lemma build_variables_Inr:
  assumes "build_variables rt c s i t n = Inr v"
  shows "\<exists>ls sa. lineItems rt i = Inr ls \<and> shippingAddress s = Inr sa
     \<and> v = JObj [(''input'', JObj [(''email'', opt_member c ''email''), (''shippingAddress'', sa),
                                   (''note'', n), (''tags'', t), (''lineItems'', ls)])]"
  using assms by (auto simp: build_variables_def and_then_Inr dest!: member_Inr)

lemma request_variables_Inr:
  assumes "request_variables rt b = Inr v"
  shows "b \<noteq> JUndefined \<and> b \<noteq> JNull
     \<and> build_variables rt (path b [''customer'']) (path b [''shipping_address'']) (path b [''items''])
         (with_default (path b [''tags'']) (JArr [])) (with_default (path b [''note'']) (JStr [])) = Inr v"
  using assms
  by (auto simp: request_variables_def destructure_def and_then_Inr path_simps split: if_splits)

lemma sent_variables:
  assumes "GraphQLRequest url tok q variables \<in> set (snd (create_draft_order rt cfg req))"
  shows "request_variables rt (req_body req) = Inr variables \<and> isArray (path (req_body req) [''items''])"
proof -
  have t: "GraphQLRequest url tok q variables \<notin> set (snd (getShopifyAccessToken rt cfg))"
    using token_calls [of rt cfg] by auto
  show ?thesis
    using assms t
    by (auto simp: create_draft_order_def request_variables_def destructure_def path_simps Let_def
        split: if_splits sum.splits prod.splits)
qed


lemma rev3_after_key:
  assumes "requireApiKey cfg req" "requireApiKey cfg req'" "req_body req' = req_body req"
  shows "create_draft_order_rev3 rt cfg req' = create_draft_order_rev3 rt cfg req"
  using assms by (simp add: create_draft_order_rev3_def)

section \<open>Authentication\<close>

text \<open>
  C3. A request to the final revision whose \<^verbatim>\<open>X-Api-Key\<close> header is missing, or differs
  from the configured secret, is answered with status 401 and the body
  \<^verbatim>\<open>{ error: "Unauthorized" }\<close>, and no outbound call is made. The request body is
  arbitrary: the check comes before the body is read.
\<close>

theorem unauthorized_401:
  assumes "x_api_key req = None \<or> x_api_key req \<noteq> INBOUND_API_KEY cfg"
  shows "create_draft_order rt cfg req = (res_json 401 (JObj [(''error'', JStr ''Unauthorized'')]), [])"
  using assms by (cases "INBOUND_API_KEY cfg") (auto simp: create_draft_order_def)

theorem unauthorized_401_witness:
  "(x_api_key (sample_request (Some ''guess'') None sample_body) = None
      \<or> x_api_key (sample_request (Some ''guess'') None sample_body) \<noteq> INBOUND_API_KEY sample_config)
   \<and> create_draft_order
        (sample_runtime (json_reply 200 sample_token_text) (json_reply 200 sample_draft_text))
        sample_config (sample_request (Some ''guess'') None sample_body)
      = (res_json 401 (JObj [(''error'', JStr ''Unauthorized'')]), [])"
proof -
  have h: "x_api_key (sample_request (Some ''guess'') None sample_body) = None
      \<or> x_api_key (sample_request (Some ''guess'') None sample_body) \<noteq> INBOUND_API_KEY sample_config"
    by (simp add: sample_request_def sample_config_def)
  show ?thesis
    using h unauthorized_401 [OF h] by simp
qed

text \<open>
  C8. When the configured secret is unset or empty, every request is answered with 401 and
  no outbound call is made, whatever key it carries (in the final revision and in the
  third).
\<close>

theorem unset_secret_fails_closed:
  assumes "INBOUND_API_KEY cfg = None \<or> INBOUND_API_KEY cfg = Some []"
  shows "create_draft_order rt cfg req = (res_json 401 (JObj [(''error'', JStr ''Unauthorized'')]), [])
       \<and> create_draft_order_rev3 rt cfg req = (res_json 401 (JObj [(''error'', JStr ''Unauthorized'')]), [])"
  using assms
  by (auto simp: create_draft_order_def create_draft_order_rev3_def requireApiKey_def unauthorized_def)

theorem unset_secret_fails_closed_witness:
  "(INBOUND_API_KEY (sample_config\<lparr>INBOUND_API_KEY := Some []\<rparr>) = None
      \<or> INBOUND_API_KEY (sample_config\<lparr>INBOUND_API_KEY := Some []\<rparr>) = Some [])
   \<and> create_draft_order
        (sample_runtime (json_reply 200 sample_token_text) (json_reply 200 sample_draft_text))
        (sample_config\<lparr>INBOUND_API_KEY := Some []\<rparr>) (sample_request (Some []) None sample_body)
      = (res_json 401 (JObj [(''error'', JStr ''Unauthorized'')]), [])
   \<and> create_draft_order_rev3
        (sample_runtime (json_reply 200 sample_token_text) (json_reply 200 sample_draft_text))
        (sample_config\<lparr>INBOUND_API_KEY := Some []\<rparr>) (sample_request (Some []) None sample_body)
      = (res_json 401 (JObj [(''error'', JStr ''Unauthorized'')]), [])"
proof -
  have h: "INBOUND_API_KEY (sample_config\<lparr>INBOUND_API_KEY := Some []\<rparr>) = None
      \<or> INBOUND_API_KEY (sample_config\<lparr>INBOUND_API_KEY := Some []\<rparr>) = Some []"
    by simp
  show ?thesis
    using h unset_secret_fails_closed [OF h] by simp
qed

text \<open>
  C7 (as amended). Only the third revision accepts a bearer header. There, a request
  without a usable \<^verbatim>\<open>X-Api-Key\<close> whose \<^verbatim>\<open>Authorization\<close> header is \<^verbatim>\<open>Bearer\<close>, a space
  and the configured secret (not empty, and without white space at either end) passes
  \<^verbatim>\<open>requireApiKey\<close> and is not answered with 401; the same request with the secret in
  \<^verbatim>\<open>X-Api-Key\<close> (and any \<^verbatim>\<open>Authorization\<close> header) passes too, and the two have the same
  reply and the same outbound calls. The final revision reads \<^verbatim>\<open>X-Api-Key\<close> only and
  answers the bearer request with 401 and no outbound call.
\<close>

theorem bearer_header_third_revision_only:
  assumes secret: "INBOUND_API_KEY cfg = Some k" "k \<noteq> []" "trim k = k"
    and headers: "\<not> env_truthy (x_api_key req)" "authorization req = Some (''Bearer '' @ k)"
  shows "requireApiKey cfg req
       \<and> res_status (fst (create_draft_order_rev3 rt cfg req)) \<noteq> 401
       \<and> requireApiKey cfg (req\<lparr>x_api_key := Some k, authorization := a\<rparr>)
       \<and> create_draft_order_rev3 rt cfg req
           = create_draft_order_rev3 rt cfg (req\<lparr>x_api_key := Some k, authorization := a\<rparr>)
       \<and> create_draft_order rt cfg req = (res_json 401 (JObj [(''error'', JStr ''Unauthorized'')]), [])"
proof -
  have p: "getProvidedKey req = k"
    using headers secret(2) bearer_token [OF secret(3)] by (simp add: getProvidedKey_def Let_def)
  have a: "requireApiKey cfg req"
    using secret(1,2) p by (simp add: requireApiKey_def)
  have x: "requireApiKey cfg (req\<lparr>x_api_key := Some k, authorization := a\<rparr>)"
    using secret(1,2) by (simp add: requireApiKey_def getProvidedKey_def Let_def)
  have e: "create_draft_order_rev3 rt cfg req
           = create_draft_order_rev3 rt cfg (req\<lparr>x_api_key := Some k, authorization := a\<rparr>)"
    by (rule rev3_after_key [OF x a]) simp
  have f: "x_api_key req \<noteq> INBOUND_API_KEY cfg"
    using headers(1) secret(1,2) by auto
  have "create_draft_order rt cfg req = (res_json 401 (JObj [(''error'', JStr ''Unauthorized'')]), [])"
    using f by (simp add: create_draft_order_def)
  with a accepted_rev3_status [OF a, of rt] x e show ?thesis by blast
qed

theorem bearer_header_third_revision_only_witness:
  "requireApiKey sample_config (sample_request None (Some ''Bearer s3cret'') sample_body)
   \<and> res_status (fst (create_draft_order_rev3
        (sample_runtime (json_reply 200 sample_token_text) (json_reply 200 sample_draft_text))
        sample_config (sample_request None (Some ''Bearer s3cret'') sample_body))) \<noteq> 401
   \<and> requireApiKey sample_config (sample_request (Some ''s3cret'') None sample_body)
   \<and> create_draft_order_rev3
        (sample_runtime (json_reply 200 sample_token_text) (json_reply 200 sample_draft_text))
        sample_config (sample_request None (Some ''Bearer s3cret'') sample_body)
      = create_draft_order_rev3
        (sample_runtime (json_reply 200 sample_token_text) (json_reply 200 sample_draft_text))
        sample_config (sample_request (Some ''s3cret'') None sample_body)
   \<and> create_draft_order
        (sample_runtime (json_reply 200 sample_token_text) (json_reply 200 sample_draft_text))
        sample_config (sample_request None (Some ''Bearer s3cret'') sample_body)
      = (res_json 401 (JObj [(''error'', JStr ''Unauthorized'')]), [])"
proof -
  have h: "INBOUND_API_KEY sample_config = Some ''s3cret''" "''s3cret'' \<noteq> []"
    "trim ''s3cret'' = ''s3cret''"
    "\<not> env_truthy (x_api_key (sample_request None (Some ''Bearer s3cret'') sample_body))"
    "authorization (sample_request None (Some ''Bearer s3cret'') sample_body) = Some (''Bearer '' @ ''s3cret'')"
    by (simp_all add: sample_config_def sample_request_def trim_def is_space_def)
  have r: "(sample_request None (Some ''Bearer s3cret'') sample_body)
      \<lparr>x_api_key := Some ''s3cret'', authorization := None\<rparr>
      = sample_request (Some ''s3cret'') None sample_body"
    by (simp add: sample_request_def)
  from bearer_header_third_revision_only
    [where a = None
       and rt = "sample_runtime (json_reply 200 sample_token_text) (json_reply 200 sample_draft_text)",
     OF h]
  show ?thesis unfolding r .
qed

text \<open>
  C7 as stated fails on the final revision: with the secret \<^verbatim>\<open>s3cret\<close> configured, the
  request carrying \<^verbatim>\<open>Authorization: Bearer s3cret\<close> and no \<^verbatim>\<open>X-Api-Key\<close> gets 401,
  while the same request with \<^verbatim>\<open>X-Api-Key: s3cret\<close> gets 200.
\<close>

theorem bearer_header_final_revision_counterexample:
  "res_status (fst (create_draft_order
      (sample_runtime (json_reply 200 sample_token_text) (json_reply 200 sample_draft_text))
      sample_config (sample_request None (Some ''Bearer s3cret'') sample_body))) = 401
   \<and> res_status (fst (create_draft_order
      (sample_runtime (json_reply 200 sample_token_text) (json_reply 200 sample_draft_text))
      sample_config (sample_request (Some ''s3cret'') None sample_body))) = 200"
  by (simp add: sample_defs run_defs res_json_def)

text \<open>
  C10. In the third revision a non-empty \<^verbatim>\<open>X-Api-Key\<close> is the provided key whatever the
  \<^verbatim>\<open>Authorization\<close> header holds, and replacing the \<^verbatim>\<open>Authorization\<close> header changes
  nothing in the outcome; a request whose provided key is empty is answered with 401
  and no outbound call, whatever the configured secret.
\<close>

theorem x_api_key_precedence:
  "(x_api_key req = Some k \<and> k \<noteq> [] \<longrightarrow>
      getProvidedKey req = k
    \<and> getProvidedKey (req\<lparr>authorization := a\<rparr>) = k
    \<and> create_draft_order_rev3 rt cfg (req\<lparr>authorization := a\<rparr>) = create_draft_order_rev3 rt cfg req)
   \<and> (getProvidedKey req = [] \<longrightarrow>
      create_draft_order_rev3 rt cfg req = (res_json 401 (JObj [(''error'', JStr ''Unauthorized'')]), []))"
  by (auto simp: getProvidedKey_def create_draft_order_rev3_def requireApiKey_def unauthorized_def Let_def)

theorem x_api_key_precedence_witness:
  "getProvidedKey (sample_request (Some ''s3cret'') (Some ''Bearer other'') sample_body) = ''s3cret''
   \<and> create_draft_order_rev3
        (sample_runtime (json_reply 200 sample_token_text) (json_reply 200 sample_draft_text))
        sample_config ((sample_request (Some ''s3cret'') (Some ''Bearer other'') sample_body)\<lparr>authorization := None\<rparr>)
     = create_draft_order_rev3
        (sample_runtime (json_reply 200 sample_token_text) (json_reply 200 sample_draft_text))
        sample_config (sample_request (Some ''s3cret'') (Some ''Bearer other'') sample_body)
   \<and> create_draft_order_rev3
        (sample_runtime (json_reply 200 sample_token_text) (json_reply 200 sample_draft_text))
        (sample_config\<lparr>INBOUND_API_KEY := Some []\<rparr>) (sample_request None (Some ''Bearer '') sample_body)
     = (res_json 401 (JObj [(''error'', JStr ''Unauthorized'')]), [])"
proof -
  have h1: "x_api_key (sample_request (Some ''s3cret'') (Some ''Bearer other'') sample_body) = Some ''s3cret''
      \<and> ''s3cret'' \<noteq> []"
    by (simp add: sample_request_def)
  have h2: "getProvidedKey (sample_request None (Some ''Bearer '') sample_body) = []"
    by (simp add: sample_request_def getProvidedKey_def trim_def is_space_def)
  show ?thesis
    using h1 h2
      x_api_key_precedence [of "sample_request (Some ''s3cret'') (Some ''Bearer other'') sample_body"
        "''s3cret''" None
        "sample_runtime (json_reply 200 sample_token_text) (json_reply 200 sample_draft_text)"
        sample_config]
      x_api_key_precedence [of "sample_request None (Some ''Bearer '') sample_body" "[]" None
        "sample_runtime (json_reply 200 sample_token_text) (json_reply 200 sample_draft_text)"
        "sample_config\<lparr>INBOUND_API_KEY := Some []\<rparr>"]
    by simp
qed


section \<open>Validation and the replies of the final revision\<close>

text \<open>
  C2 (as amended). A request with the right key and a JSON body (\<^verbatim>\<open>req.body\<close> is neither
  \<^verbatim>\<open>undefined\<close> nor \<^verbatim>\<open>null\<close>) in which \<^verbatim>\<open>customer.email\<close> is absent or falsy, or
  \<^verbatim>\<open>shipping_address.address1\<close> is absent or falsy, or \<^verbatim>\<open>items\<close> is not an array or
  is an empty one, is answered with status 400, and neither the token exchange nor the
  mutation is called.
\<close>

theorem missing_field_400:
  assumes key: "INBOUND_API_KEY cfg = Some k" "k \<noteq> []" "x_api_key req = Some k"
    and body: "req_body req \<noteq> JUndefined" "req_body req \<noteq> JNull"
    and missing:
      "\<not> truthy (number_falsy rt) (path (req_body req) [''customer'', ''email''])
       \<or> \<not> truthy (number_falsy rt) (path (req_body req) [''shipping_address'', ''address1''])
       \<or> \<not> isArray (path (req_body req) [''items''])
       \<or> path (req_body req) [''items''] = JArr []"
  shows "res_status (fst (create_draft_order rt cfg req)) = 400
       \<and> snd (create_draft_order rt cfg req) = []"
  using key missing
  by (auto simp: create_draft_order_def destructure_parts [OF body] path_simps res_json_def)

theorem missing_field_400_witness:
  "res_status (fst (create_draft_order
      (sample_runtime (json_reply 200 sample_token_text) (json_reply 200 sample_draft_text))
      sample_config
      (sample_request (Some ''s3cret'') None
         (JObj [(''customer'', JObj [(''email'', JStr ''pat@example.com'')]),
                (''shipping_address'', JObj [(''address1'', JStr ''1 Main St'')]),
                (''items'', JArr [])])))) = 400
   \<and> snd (create_draft_order
      (sample_runtime (json_reply 200 sample_token_text) (json_reply 200 sample_draft_text))
      sample_config
      (sample_request (Some ''s3cret'') None
         (JObj [(''customer'', JObj [(''email'', JStr ''pat@example.com'')]),
                (''shipping_address'', JObj [(''address1'', JStr ''1 Main St'')]),
                (''items'', JArr [])]))) = []"
  by (rule missing_field_400 [where k = "''s3cret''"])
     (simp_all add: sample_config_def sample_request_def sample_runtime_def path_def own_def)


text \<open>
  C2 as stated fails for a request without a body: when \<^verbatim>\<open>req.body\<close> is \<^verbatim>\<open>undefined\<close>
  the email is absent, the destructuring throws and the request is answered with status
  500 (still without an outbound call).
\<close>

theorem missing_body_counterexample:
  "\<not> truthy (number_falsy (sample_runtime (json_reply 200 sample_token_text) (json_reply 200 sample_draft_text)))
        (path (req_body (sample_request (Some ''s3cret'') None JUndefined)) [''customer'', ''email''])
   \<and> res_status (fst (create_draft_order
        (sample_runtime (json_reply 200 sample_token_text) (json_reply 200 sample_draft_text))
        sample_config (sample_request (Some ''s3cret'') None JUndefined))) = 500
   \<and> snd (create_draft_order
        (sample_runtime (json_reply 200 sample_token_text) (json_reply 200 sample_draft_text))
        sample_config (sample_request (Some ''s3cret'') None JUndefined)) = []"
  by (simp add: sample_defs run_defs res_json_def)

text \<open>
  C1. A request with the right key that passes validation, whose token exchange succeeds
  and whose mutation is answered with an OK status, no user errors and a draft order whose
  \<^verbatim>\<open>id\<close> and \<^verbatim>\<open>invoiceUrl\<close> are strings, is answered with status 200 and the body
  \<^verbatim>\<open>{ draft_order_id, invoice_url }\<close> holding exactly those two strings.
\<close>

theorem draft_order_created_200:
  assumes key: "INBOUND_API_KEY cfg = Some k" "k \<noteq> []" "x_api_key req = Some k"
    and valid:
      "truthy (number_falsy rt) (path (req_body req) [''customer'', ''email''])"
      "truthy (number_falsy rt) (path (req_body req) [''shipping_address'', ''address1''])"
      "path (req_body req) [''items''] = JArr (it # its)"
    and token: "getShopifyAccessToken rt cfg = (Inr accessToken, calls)"
    and vars: "request_variables rt (req_body req) = Inr variables"
    and reply: "fetch rt (GraphQLRequest (graphql_url cfg) accessToken gql variables) = Inr resp"
      "ok resp" "JSON_parse rt (text_of resp) = Inr data"
    and no_errors: "userErrors_of data = JArr [] \<or> nullish (userErrors_of data)"
    and draft:
      "path data [''data'', ''draftOrderCreate'', ''draftOrder'', ''id''] = JStr draft_id"
      "path data [''data'', ''draftOrderCreate'', ''draftOrder'', ''invoiceUrl''] = JStr invoiceUrl"
  shows "create_draft_order rt cfg req =
     (res_json 200 (JObj [(''draft_order_id'', JStr draft_id), (''invoice_url'', JStr invoiceUrl)]),
      calls @ [GraphQLRequest (graphql_url cfg) accessToken gql variables])"
proof -
  have body: "req_body req \<noteq> JUndefined" "req_body req \<noteq> JNull"
    using truthy_path_body [OF valid(1)] by simp_all
  have v: "build_variables rt (path (req_body req) [''customer'']) (path (req_body req) [''shipping_address''])
      (path (req_body req) [''items'']) (with_default (path (req_body req) [''tags'']) (JArr []))
      (with_default (path (req_body req) [''note'']) (JStr [])) = Inr variables"
    using vars by (simp add: request_variables_def destructure_parts [OF body])
  have r: "draft_order_reply rt resp =
     Inr (res_json 200 (JObj [(''draft_order_id'', JStr draft_id), (''invoice_url'', JStr invoiceUrl)]))"
    by (rule draft_order_reply_200 [OF reply(2,3) no_errors draft])
  show ?thesis
    using key valid token v
    by (simp add: create_draft_order_def destructure_parts [OF body] path_simps reply(1) r)
qed

theorem draft_order_created_200_witness:
  "create_draft_order
      (sample_runtime (json_reply 200 sample_token_text) (json_reply 200 sample_draft_text))
      sample_config (sample_request (Some ''s3cret'') None sample_body)
   = (res_json 200 (JObj [(''draft_order_id'', JStr ''gid://shopify/DraftOrder/1''),
                          (''invoice_url'', JStr ''https://shop.example/invoice/1'')]),
      [sample_token_call, sample_graphql_call])"
  using draft_order_created_200
    [where rt = "sample_runtime (json_reply 200 sample_token_text) (json_reply 200 sample_draft_text)"
       and cfg = sample_config and req = "sample_request (Some ''s3cret'') None sample_body"
       and k = "''s3cret''"
       and it = "JObj [(''title'', JStr ''Single Vision Lenses''), (''price'', JNum 150)]"
       and its = "[]" and accessToken = "JStr ''shpat_1''" and calls = "[sample_token_call]"
       and variables = sample_variables and resp = "json_reply 200 sample_draft_text"
       and data = "JObj [(''data'', JObj [(''draftOrderCreate'',
               JObj [(''draftOrder'', JObj [(''id'', JStr ''gid://shopify/DraftOrder/1''),
                                            (''invoiceUrl'', JStr ''https://shop.example/invoice/1'')]),
                     (''userErrors'', JArr [])])])]"
       and draft_id = "''gid://shopify/DraftOrder/1''"
       and invoiceUrl = "''https://shop.example/invoice/1''"]
  by (simp add: sample_defs run_defs)


text \<open>
  C4 (as amended). A request with the right key that passes validation, whose mutation
  reply parses as JSON and either has a status that is not OK or holds a non-empty
  \<^verbatim>\<open>userErrors\<close> array, is answered with status 400; the \<^verbatim>\<open>details\<close> of the body are
  the \<^verbatim>\<open>userErrors\<close>, or the whole parsed reply when \<^verbatim>\<open>userErrors\<close> is
  \<^verbatim>\<open>undefined\<close> or \<^verbatim>\<open>null\<close>.
\<close>

theorem upstream_rejection_400:
  assumes key: "INBOUND_API_KEY cfg = Some k" "k \<noteq> []" "x_api_key req = Some k"
    and valid:
      "truthy (number_falsy rt) (path (req_body req) [''customer'', ''email''])"
      "truthy (number_falsy rt) (path (req_body req) [''shipping_address'', ''address1''])"
      "path (req_body req) [''items''] = JArr (it # its)"
    and token: "getShopifyAccessToken rt cfg = (Inr accessToken, calls)"
    and vars: "request_variables rt (req_body req) = Inr variables"
    and reply: "fetch rt (GraphQLRequest (graphql_url cfg) accessToken gql variables) = Inr resp"
      "JSON_parse rt (text_of resp) = Inr data"
    and rejected: "\<not> ok resp \<or> userErrors_of data = JArr (e # es)"
  shows "fst (create_draft_order rt cfg req) =
     res_json 400 (JObj [(''error'', JStr ''Shopify error creating draft order''),
       (''details'', if nullish (userErrors_of data) then data else userErrors_of data)])"
proof -
  have body: "req_body req \<noteq> JUndefined" "req_body req \<noteq> JNull"
    using truthy_path_body [OF valid(1)] by simp_all
  have v: "build_variables rt (path (req_body req) [''customer'']) (path (req_body req) [''shipping_address''])
      (path (req_body req) [''items'']) (with_default (path (req_body req) [''tags'']) (JArr []))
      (with_default (path (req_body req) [''note'']) (JStr [])) = Inr variables"
    using vars by (simp add: request_variables_def destructure_parts [OF body])
  note r = draft_order_reply_400 [OF reply(2) rejected]
  show ?thesis
    using key valid token v
    by (simp add: create_draft_order_def destructure_parts [OF body] path_simps reply(1) r)
qed


theorem upstream_rejection_400_witness:
  "fst (create_draft_order
      (sample_runtime (json_reply 200 sample_token_text) (json_reply 200 sample_rejected_text))
      sample_config (sample_request (Some ''s3cret'') None sample_body))
   = res_json 400 (JObj [(''error'', JStr ''Shopify error creating draft order''),
                         (''details'', sample_user_errors)])"
  using upstream_rejection_400
    [where rt = "sample_runtime (json_reply 200 sample_token_text) (json_reply 200 sample_rejected_text)"
       and cfg = sample_config and req = "sample_request (Some ''s3cret'') None sample_body"
       and k = "''s3cret''"
       and it = "JObj [(''title'', JStr ''Single Vision Lenses''), (''price'', JNum 150)]"
       and its = "[]" and accessToken = "JStr ''shpat_1''" and calls = "[sample_token_call]"
       and variables = sample_variables and resp = "json_reply 200 sample_rejected_text"
       and data = "JObj [(''data'', JObj [(''draftOrderCreate'',
               JObj [(''draftOrder'', JNull), (''userErrors'', sample_user_errors)])])]"
       and e = "JObj [(''field'', JArr [JStr ''email'']), (''message'', JStr ''Email is invalid'')]"
       and es = "[]"]
  by (simp add: sample_defs run_defs)

text \<open>
  C4 as stated fails for a reply whose status is not OK and whose body is not JSON: for a
  502 reply of type \<^verbatim>\<open>text/html\<close> \<^verbatim>\<open>resp.json()\<close> throws, and the request is answered
  with status 500 instead of 400.
\<close>

theorem upstream_html_error_counterexample:
  "\<not> ok (html_reply 502 ''<html>Bad Gateway</html>'')
   \<and> create_draft_order
        (sample_runtime (json_reply 200 sample_token_text) (html_reply 502 ''<html>Bad Gateway</html>''))
        sample_config (sample_request (Some ''s3cret'') None sample_body)
     = (res_json 500 (JObj [(''error'', JStr ''Server error''),
                            (''details'', JStr ''SyntaxError: Unexpected token'')]),
        [sample_token_call, sample_graphql_call])"
  by (simp add: sample_defs run_defs)

section \<open>The token exchange\<close>

text \<open>
  C5 (as amended). When the token endpoint answers with a content type that does not
  contain \<^verbatim>\<open>application/json\<close>, \<^verbatim>\<open>getShopifyAccessToken\<close> throws an \<^verbatim>\<open>Error\<close>
  whatever \<^verbatim>\<open>JSON.parse\<close> would do with the text. Its message is
  \<^verbatim>\<open>Token request failed: status=S contentType=C preview=P\<close> when the status is not OK
  and \<^verbatim>\<open>Token missing access_token. contentType=C preview=P\<close> when it is, with \<^verbatim>\<open>S\<close>
  the status, \<^verbatim>\<open>C\<close> the content type and \<^verbatim>\<open>P\<close> the first 200 characters of the body
  and no more. A valid request with the right key is then answered with status 500 and
  \<^verbatim>\<open>details\<close> equal to \<^verbatim>\<open>Error: \<close> followed by that message, after the token request
  as the only outbound call.
\<close>

theorem non_json_token_reply:
  assumes env: "env_truthy (SHOPIFY_SHOP_DOMAIN cfg)" "env_truthy (SHOPIFY_CLIENT_ID cfg)"
      "env_truthy (SHOPIFY_CLIENT_SECRET cfg)"
    and reply: "fetch rt (TokenRequest (token_url cfg) (token_form cfg)) = Inr resp"
    and not_json: "\<not> str_includes (contentType resp) ''application/json''"
    and key: "INBOUND_API_KEY cfg = Some k" "k \<noteq> []" "x_api_key req = Some k"
    and valid:
      "truthy (number_falsy rt) (path (req_body req) [''customer'', ''email''])"
      "truthy (number_falsy rt) (path (req_body req) [''shipping_address'', ''address1''])"
      "path (req_body req) [''items''] = JArr (it # its)"
  shows "\<exists>msg.
      msg = (if ok resp
             then ''Token missing access_token. contentType='' @ contentType resp
                    @ '' preview='' @ take 200 (text_of resp)
             else ''Token request failed: status='' @ show_nat (status resp)
                    @ '' contentType='' @ contentType resp
                    @ '' preview='' @ take 200 (text_of resp))
    \<and> length (take 200 (text_of resp)) \<le> 200
    \<and> (\<forall>parse. getShopifyAccessToken (rt\<lparr>JSON_parse := parse\<rparr>) cfg =
          (Inl (Error msg), [TokenRequest (token_url cfg) (token_form cfg)]))
    \<and> str_includes msg (contentType resp)
    \<and> str_includes msg (take 200 (text_of resp))
    \<and> (\<not> ok resp \<longrightarrow> str_includes msg (show_nat (status resp)))
    \<and> create_draft_order rt cfg req =
         (res_json 500 (JObj [(''error'', JStr ''Server error''), (''details'', JStr (''Error: '' @ msg))]),
          [TokenRequest (token_url cfg) (token_form cfg)])"
proof -
  define msg where "msg = (if ok resp
        then ''Token missing access_token. contentType='' @ contentType resp
               @ '' preview='' @ take 200 (text_of resp)
        else ''Token request failed: status='' @ show_nat (status resp)
               @ '' contentType='' @ contentType resp
               @ '' preview='' @ take 200 (text_of resp))"
  have tok: "getShopifyAccessToken (rt\<lparr>JSON_parse := parse\<rparr>) cfg =
      (Inl (Error msg), [TokenRequest (token_url cfg) (token_form cfg)])" for parse
    using env reply by (simp add: getShopifyAccessToken_def Let_def read_token_not_json [OF not_json] msg_def)
  have ct: "str_includes msg (contentType resp)"
  proof (cases "ok resp")
    case True
    have "msg = ''Token missing access_token. contentType='' @ contentType resp
        @ ('' preview='' @ take 200 (text_of resp))"
      using True by (simp add: msg_def)
    then show ?thesis by (simp only: str_includes_append)
  next
    case False
    have "msg = (''Token request failed: status='' @ show_nat (status resp) @ '' contentType='')
        @ contentType resp @ ('' preview='' @ take 200 (text_of resp))"
      using False by (simp add: msg_def)
    then show ?thesis by (simp only: str_includes_append)
  qed
  have pv: "str_includes msg (take 200 (text_of resp))"
  proof (cases "ok resp")
    case True
    have "msg = (''Token missing access_token. contentType='' @ contentType resp @ '' preview='')
        @ take 200 (text_of resp) @ []"
      using True by (simp add: msg_def)
    then show ?thesis by (simp only: str_includes_append)
  next
    case False
    have "msg = (''Token request failed: status='' @ show_nat (status resp) @ '' contentType=''
        @ contentType resp @ '' preview='') @ take 200 (text_of resp) @ []"
      using False by (simp add: msg_def)
    then show ?thesis by (simp only: str_includes_append)
  qed
  have st: "str_includes msg (show_nat (status resp))" if "\<not> ok resp"
  proof -
    have "msg = ''Token request failed: status='' @ show_nat (status resp)
        @ ('' contentType='' @ contentType resp @ '' preview='' @ take 200 (text_of resp))"
      using that by (simp add: msg_def)
    then show ?thesis by (simp only: str_includes_append)
  qed
  have body: "req_body req \<noteq> JUndefined" "req_body req \<noteq> JNull"
    using truthy_path_body [OF valid(1)] by simp_all
  have "rt\<lparr>JSON_parse := JSON_parse rt\<rparr> = rt" by simp
  with tok [of "JSON_parse rt"] have tok': "getShopifyAccessToken rt cfg =
      (Inl (Error msg), [TokenRequest (token_url cfg) (token_form cfg)])" by simp
  have ne: "msg \<noteq> []" by (simp add: msg_def)
  have run: "create_draft_order rt cfg req =
         (res_json 500 (JObj [(''error'', JStr ''Server error''), (''details'', JStr (''Error: '' @ msg))]),
          [TokenRequest (token_url cfg) (token_form cfg)])"
    using key valid tok' ne
    by (simp add: create_draft_order_def destructure_parts [OF body] path_simps server_error_def)
  have len: "length (take 200 (text_of resp)) \<le> 200" by simp
  from msg_def len tok ct pv st run show ?thesis by blast
qed

theorem non_json_token_reply_witness:
  "(\<forall>parse. getShopifyAccessToken
          (sample_runtime (html_reply 503 (replicate 300 (CHR ''x''))) (json_reply 200 sample_draft_text)
             \<lparr>JSON_parse := parse\<rparr>) sample_config =
          (Inl (Error (''Token request failed: status=503 contentType=text/html preview=''
                       @ replicate 200 (CHR ''x''))),
           [sample_token_call]))
    \<and> create_draft_order
         (sample_runtime (html_reply 503 (replicate 300 (CHR ''x''))) (json_reply 200 sample_draft_text))
         sample_config (sample_request (Some ''s3cret'') None sample_body) =
         (res_json 500 (JObj [(''error'', JStr ''Server error''),
            (''details'', JStr (''Error: Token request failed: status=503 contentType=text/html preview=''
                       @ replicate 200 (CHR ''x'')))]),
          [sample_token_call])"
  using non_json_token_reply
    [where rt = "sample_runtime (html_reply 503 (replicate 300 (CHR ''x''))) (json_reply 200 sample_draft_text)"
       and cfg = sample_config and req = "sample_request (Some ''s3cret'') None sample_body"
       and resp = "html_reply 503 (replicate 300 (CHR ''x''))"
       and k = "''s3cret''"
       and it = "JObj [(''title'', JStr ''Single Vision Lenses''), (''price'', JNum 150)]"
       and its = "[]"]
  by (simp add: sample_defs path_def own_def ok_def contentType_def token_url_def token_form_def
        show_nat.simps)


text \<open>
  C5 as stated fails for an OK status: for a 200 reply of type \<^verbatim>\<open>text/html\<close> the message
  is the one for a missing \<^verbatim>\<open>access_token\<close>, which does not contain the status.
\<close>

theorem token_error_without_status_counterexample:
  "fst (getShopifyAccessToken
          (sample_runtime (html_reply 200 ''<html>Sign in</html>'') (json_reply 200 sample_draft_text))
          sample_config)
     = Inl (Error ''Token missing access_token. contentType=text/html preview=<html>Sign in</html>'')
   \<and> \<not> str_includes ''Token missing access_token. contentType=text/html preview=<html>Sign in</html>''
         (show_nat (status (html_reply 200 ''<html>Sign in</html>'')))"
  by (simp add: sample_defs run_defs)

section \<open>The field mapping\<close>

text \<open>
  C6 (as amended). Whenever the relay sends the mutation, its \<^verbatim>\<open>variables\<close> are mapped from
  the request body as follows. \<^verbatim>\<open>email\<close>, \<^verbatim>\<open>address1\<close> and each item's \<^verbatim>\<open>title\<close> are
  the values given. Each of \<^verbatim>\<open>firstName\<close>, \<^verbatim>\<open>lastName\<close>, \<^verbatim>\<open>address2\<close>, \<^verbatim>\<open>city\<close>,
  \<^verbatim>\<open>province\<close>, \<^verbatim>\<open>zip\<close>, \<^verbatim>\<open>phone\<close> is the value given, or the empty string when
  that value is \<^verbatim>\<open>undefined\<close> or \<^verbatim>\<open>null\<close>; \<^verbatim>\<open>country\<close> likewise with \<^verbatim>\<open>"US"\<close>, and
  each item's \<^verbatim>\<open>quantity\<close> likewise with 1. \<^verbatim>\<open>tags\<close> is the value given, or the empty
  array when it is \<^verbatim>\<open>undefined\<close>, and \<^verbatim>\<open>note\<close> the value given, or the empty string
  when it is \<^verbatim>\<open>undefined\<close>. Each item's \<^verbatim>\<open>originalUnitPrice\<close> is the string
  \<^verbatim>\<open>String(price)\<close>. The line items are as many as the items, in their order.
\<close>

theorem field_mapping_defaults:
  assumes sent: "GraphQLRequest url tok q variables \<in> set (snd (create_draft_order rt cfg req))"
  shows
    "path variables [''input'', ''email''] = path (req_body req) [''customer'', ''email'']
   \<and> path variables [''input'', ''shippingAddress'', ''address1'']
       = path (req_body req) [''shipping_address'', ''address1'']
   \<and> (\<forall>f \<in> set [''firstName'', ''lastName'', ''address2'', ''city'', ''province'', ''zip'', ''phone''].
        path variables [''input'', ''shippingAddress'', f]
        = (if nullish (path (req_body req) [''shipping_address'', f]) then JStr []
           else path (req_body req) [''shipping_address'', f]))
   \<and> path variables [''input'', ''shippingAddress'', ''country'']
       = (if nullish (path (req_body req) [''shipping_address'', ''country'']) then JStr ''US''
          else path (req_body req) [''shipping_address'', ''country''])
   \<and> path variables [''input'', ''tags'']
       = (if path (req_body req) [''tags''] = JUndefined then JArr [] else path (req_body req) [''tags''])
   \<and> path variables [''input'', ''note'']
       = (if path (req_body req) [''note''] = JUndefined then JStr [] else path (req_body req) [''note''])
   \<and> (\<exists>its ls. path (req_body req) [''items''] = JArr its
        \<and> path variables [''input'', ''lineItems''] = JArr ls
        \<and> length ls = length its
        \<and> (\<forall>i<length its.
              path (ls ! i) [''title''] = path (its ! i) [''title'']
            \<and> path (ls ! i) [''quantity'']
                = (if nullish (path (its ! i) [''quantity'']) then JNum (number_one rt)
                   else path (its ! i) [''quantity''])
            \<and> (\<exists>s. js_String (number_toString rt) (path (its ! i) [''price'']) = Inr s
                   \<and> path (ls ! i) [''originalUnitPrice''] = JStr s)))"
proof -
  let ?b = "req_body req"
  from sent_variables [OF sent]
  have rv: "request_variables rt ?b = Inr variables" and arr: "isArray (path ?b [''items''])"
    by simp_all
  from request_variables_Inr [OF rv]
  have bv: "build_variables rt (path ?b [''customer'']) (path ?b [''shipping_address'']) (path ?b [''items''])
         (with_default (path ?b [''tags'']) (JArr [])) (with_default (path ?b [''note'']) (JStr [])) = Inr variables"
    by simp
  from build_variables_Inr [OF bv] obtain lsv sa where
    li: "lineItems rt (path ?b [''items'']) = Inr lsv"
    and sa: "shippingAddress (path ?b [''shipping_address'']) = Inr sa"
    and v: "variables = JObj [(''input'', JObj [(''email'', opt_member (path ?b [''customer'']) ''email''),
          (''shippingAddress'', sa),
          (''note'', with_default (path ?b [''note'']) (JStr [])),
          (''tags'', with_default (path ?b [''tags'']) (JArr [])), (''lineItems'', lsv)])]"
    by blast
  note sa' = shippingAddress_Inr [OF sa]
  from arr obtain its where its: "path ?b [''items''] = JArr its"
    by (cases "path ?b [''items'']") auto
  from lineItems_Inr [OF li [unfolded its]] obtain ls where
    ls: "lsv = JArr ls" "length ls = length its" "\<forall>i<length its. lineItem rt (its ! i) = Inr (ls ! i)"
    by blast
  have c1: "path variables [''input'', ''email''] = path ?b [''customer'', ''email'']"
    by (simp add: v path_simps own_def)
  have c2: "path variables [''input'', ''shippingAddress'', ''address1'']
       = path ?b [''shipping_address'', ''address1'']"
    by (simp add: v sa' path_simps own_def)
  have c3: "\<forall>f \<in> set [''firstName'', ''lastName'', ''address2'', ''city'', ''province'', ''zip'', ''phone''].
        path variables [''input'', ''shippingAddress'', f]
        = (if nullish (path ?b [''shipping_address'', f]) then JStr []
           else path ?b [''shipping_address'', f])"
    by (simp add: v sa' path_simps own_def coalesce_def)
  have c4: "path variables [''input'', ''shippingAddress'', ''country'']
       = (if nullish (path ?b [''shipping_address'', ''country'']) then JStr ''US''
          else path ?b [''shipping_address'', ''country''])"
    by (simp add: v sa' path_simps own_def coalesce_def)
  have c5: "path variables [''input'', ''tags'']
       = (if path ?b [''tags''] = JUndefined then JArr [] else path ?b [''tags''])"
    by (simp add: v path_simps own_def with_default_def)
  have c6: "path variables [''input'', ''note'']
       = (if path ?b [''note''] = JUndefined then JStr [] else path ?b [''note''])"
    by (simp add: v path_simps own_def with_default_def)
  have c7: "path variables [''input'', ''lineItems''] = JArr ls"
    by (simp add: v ls(1) path_simps own_def)
  have c8: "path (ls ! i) [''title''] = path (its ! i) [''title'']
            \<and> path (ls ! i) [''quantity'']
                = (if nullish (path (its ! i) [''quantity'']) then JNum (number_one rt)
                   else path (its ! i) [''quantity''])
            \<and> (\<exists>s. js_String (number_toString rt) (path (its ! i) [''price'']) = Inr s
                   \<and> path (ls ! i) [''originalUnitPrice''] = JStr s)" if "i < length its" for i
  proof -
    from ls(3) that have "lineItem rt (its ! i) = Inr (ls ! i)" by simp
    from lineItem_Inr [OF this] show ?thesis
      by (auto simp: path_simps own_def coalesce_def)
  qed
  from c1 c2 c3 c4 c5 c6 its c7 ls(2) c8 show ?thesis by blast
qed


theorem field_mapping_defaults_witness:
  "GraphQLRequest ''https://shop.example/admin/api/2025-10/graphql.json'' (JStr ''shpat_1'') gql sample_variables
     \<in> set (snd (create_draft_order
          (sample_runtime (json_reply 200 sample_token_text) (json_reply 200 sample_draft_text))
          sample_config (sample_request (Some ''s3cret'') None sample_body)))
   \<and> path sample_variables [''input'', ''shippingAddress'', ''country''] = JStr ''US''
   \<and> path sample_variables [''input'', ''tags''] = JArr []
   \<and> path sample_variables [''input'', ''note''] = JStr []"
proof -
  have h: "GraphQLRequest ''https://shop.example/admin/api/2025-10/graphql.json'' (JStr ''shpat_1'') gql sample_variables
     \<in> set (snd (create_draft_order
          (sample_runtime (json_reply 200 sample_token_text) (json_reply 200 sample_draft_text))
          sample_config (sample_request (Some ''s3cret'') None sample_body)))"
    by (simp add: sample_defs run_defs)
  have b: "req_body (sample_request (Some ''s3cret'') None sample_body) = sample_body"
    by (simp add: sample_request_def)
  have n: "nullish (path sample_body [''shipping_address'', ''country''])"
    "path sample_body [''tags''] = JUndefined" "path sample_body [''note''] = JUndefined"
    by (simp_all add: sample_body_def path_def own_def nullish_def)
  from field_mapping_defaults [OF h] h show ?thesis
    unfolding b by (simp only: n if_True simp_thms)
qed


text \<open>
  C6 as stated fails where it says that every present field passes through unchanged: a
  \<^verbatim>\<open>country\<close> that is present with the value \<^verbatim>\<open>null\<close> is forwarded as \<^verbatim>\<open>"US"\<close>, and
  the price 150 is forwarded as the string \<^verbatim>\<open>"150"\<close>.
\<close>

theorem field_mapping_counterexample:
  "snd (create_draft_order
          (sample_runtime (json_reply 200 sample_token_text) (json_reply 200 sample_draft_text))
          sample_config
          (sample_request (Some ''s3cret'') None
             (JObj [(''customer'', JObj [(''email'', JStr ''pat@example.com'')]),
                    (''shipping_address'', JObj [(''address1'', JStr ''1 Main St''), (''country'', JNull)]),
                    (''items'', JArr [JObj [(''title'', JStr ''Single Vision Lenses''), (''price'', JNum 150)]])])))
     = [sample_token_call, sample_graphql_call]
   \<and> path sample_variables [''input'', ''shippingAddress'', ''country''] = JStr ''US''
   \<and> path (JObj [(''customer'', JObj [(''email'', JStr ''pat@example.com'')]),
                 (''shipping_address'', JObj [(''address1'', JStr ''1 Main St''), (''country'', JNull)]),
                 (''items'', JArr [JObj [(''title'', JStr ''Single Vision Lenses''), (''price'', JNum 150)]])])
        [''shipping_address'', ''country''] = (JNull :: int js)
   \<and> lineItem (sample_runtime (json_reply 200 sample_token_text) (json_reply 200 sample_draft_text))
        (JObj [(''title'', JStr ''Single Vision Lenses''), (''price'', JNum 150)])
     = Inr (JObj [(''title'', JStr ''Single Vision Lenses''), (''quantity'', JNum 1),
                  (''originalUnitPrice'', JStr ''150'')])"
  by (simp add: sample_defs run_defs)






end
